theory Spec2Isabelle
  imports Complex_Main "HOL-Library.Word" "HOL-Library.AList"
begin

section \<open>JavaScript numbers\<close>

text \<open>
  A JavaScript number is an IEEE 754 binary64 value. The pipeline only compares such
  values and multiplies a model output by 100, so a number is modelled as a real or one
  of the three special values. The data of a tensor is a typed array (32-bit floats or
  integers): a finite element has at most 32 significant bits and its product with 100
  at most 39, which binary64 holds exactly, so the real product is the computed one.
\<close>

datatype number = NaN | NegInf | Fin real | PosInf

text \<open>The relational operator \<open>a < b\<close>: false as soon as one side is NaN.\<close>

fun lt :: "number \<Rightarrow> number \<Rightarrow> bool" where
  "lt NaN _ = False"
| "lt _ NaN = False"
| "lt NegInf NegInf = False"
| "lt NegInf _ = True"
| "lt (Fin a) NegInf = False"
| "lt (Fin a) (Fin b) = (a < b)"
| "lt (Fin a) PosInf = True"
| "lt PosInf _ = False"

text \<open>\<open>a > b\<close> and \<open>a >= b\<close>; the latter is not the negation of \<open>a < b\<close> on NaN.\<close>

definition gt :: "number \<Rightarrow> number \<Rightarrow> bool" where
  "gt a b = lt b a"

definition ge :: "number \<Rightarrow> number \<Rightarrow> bool" where
  "ge a b = (lt b a \<or> (a \<noteq> NaN \<and> a = b))"

text \<open>The product \<open>a * b\<close>.\<close>

fun times_inf :: "bool \<Rightarrow> real \<Rightarrow> number" where
  "times_inf positive a =
     (if a = 0 then NaN else if (0 < a) = positive then PosInf else NegInf)"

fun times :: "number \<Rightarrow> number \<Rightarrow> number" where
  "times NaN _ = NaN"
| "times _ NaN = NaN"
| "times (Fin a) (Fin b) = Fin (a * b)"
| "times (Fin a) PosInf = times_inf True a"
| "times (Fin a) NegInf = times_inf False a"
| "times PosInf (Fin b) = times_inf True b"
| "times NegInf (Fin b) = times_inf False b"
| "times PosInf PosInf = PosInf"
| "times NegInf NegInf = PosInf"
| "times PosInf NegInf = NegInf"
| "times NegInf PosInf = NegInf"

text \<open>
  \<open>Math.max\<close> on its arguments: the running maximum starts at \<open>-Infinity\<close>, and a
  NaN among the arguments makes the result NaN.
\<close>

fun max_from :: "number \<Rightarrow> number list \<Rightarrow> number" where
  "max_from highest [] = highest"
| "max_from highest (x # xs) =
     (if x = NaN then NaN else max_from (if lt highest x then x else highest) xs)"

section \<open>Errors\<close>

text \<open>
  \<open>InputError message statusCode\<close> is the class of the source (a \<open>ClientError\<close>);
  \<open>Boom statusCode message\<close> is an error raised by the framework itself;
  \<open>Fault message\<close> is any other exception (a \<open>TypeError\<close>, a \<open>RangeError\<close>,
  a failure of the decoder, of the model or of the store).
\<close>

datatype js_error = InputError string nat | Boom nat string | Fault string

text \<open>\<open>new InputError(message)\<close>: the status code defaults to 400.\<close>

definition new_InputError :: "string \<Rightarrow> js_error" where
  "new_InputError msg = InputError msg 400"

text \<open>
  \<open>Math.max(...xs)\<close>: the spread passes every element of the array as one argument
  of the call, and the engine raises a \<open>RangeError\<close> when there are more of them than
  it can pass. That bound depends on the engine and is a parameter here.
\<close>

definition Math_max :: "nat \<Rightarrow> number list \<Rightarrow> js_error + number" where
  "Math_max max_args xs =
     (if length xs > max_args then Inl (Fault ''RangeError: Maximum call stack size exceeded'')
      else Inr (max_from NegInf xs))"

section \<open>Inference service\<close>

record classification =
  confidenceScore :: number
  label :: string
  suggestion :: string

text \<open>Lines 91 to 95 of \<open>predictClassification\<close>: the label policy.\<close>

definition classify :: "number \<Rightarrow> classification" where
  "classify cs =
     (let result = \<lparr>confidenceScore = cs, label = ''Cancer'',
                    suggestion = ''Segera periksa ke dokter!''\<rparr>
      in if lt cs (Fin 1)
         then result\<lparr>label := ''Non-cancer'',
                     suggestion := ''Penyakit kanker tidak terdeteksi.''\<rparr>
         else result)"

text \<open>
  The two external capabilities of the pipeline. \<open>decodeJpeg\<close> stands for the chain
  \<open>tf.node.decodeJpeg(image).resizeNearestNeighbor([224, 224]).expandDims().toFloat()\<close>
  and \<open>predict\<close> for \<open>model.predict(tensor)\<close> followed by \<open>prediction.data()\<close>;
  either may throw. The tensor type is left open. \<open>max_arguments\<close> is the engine's
  bound on the number of arguments of one call.
\<close>

type_synonym byte = "8 word"

record 't services =
  decodeJpeg :: "byte list \<Rightarrow> js_error + 't"
  predict :: "'t \<Rightarrow> js_error + number list"
  max_arguments :: nat

section \<open>Store and probes\<close>

text \<open>The object written by \<open>postPredictHandler\<close> under the key \<open>id\<close>.\<close>

record prediction_data =
  data_id :: string
  data_result :: string
  data_suggestion :: string
  data_confidenceScore :: number
  data_createdAt :: string

text \<open>
  The \<open>predictions\<close> collection is a list of documents (key and data) with distinct
  keys, in the order the store iterates them. \<open>subdocuments\<close> holds what the store
  has at longer paths below the collection (documents of subcollections), which a listing
  of the collection does not return. \<open>predict_calls\<close> counts the forward passes of the
  model and \<open>set_calls\<close> the calls of \<open>storeData\<close>.
\<close>

record state =
  predictions :: "(string \<times> prediction_data) list"
  subdocuments :: "(string list \<times> prediction_data) list"
  predict_calls :: nat
  set_calls :: nat

text \<open>
  What one request reads from its surroundings: the value of \<open>crypto.randomUUID()\<close>,
  the value of \<open>new Date().toISOString()\<close>, and whether the write to the store is
  rejected (and with which error).
\<close>

record ambient =
  randomUUID :: string
  toISOString :: string
  set_fault :: "js_error option"

text \<open>
  The body of the \<open>try\<close> block of \<open>predictClassification\<close>. The image \<open>img\<close> is \<open>None\<close>
  when the payload has no \<open>image\<close> field: reading \<open>image.length\<close> then throws.
\<close>

definition predict_try ::
  "'t services \<Rightarrow> byte list option \<Rightarrow> state \<Rightarrow> (js_error + classification) \<times> state" where
  "predict_try sv img st =
     (case img of
        None \<Rightarrow> (Inl (Fault ''TypeError''), st)
      | Some bytes \<Rightarrow>
          if length bytes > 1024 * 1024
          then (Inl (new_InputError ''Ukuran gambar terlalu besar. Maksimum 1MB.''), st)
          else (case decodeJpeg sv bytes of
                  Inl e \<Rightarrow> (Inl e, st)
                | Inr tensor \<Rightarrow>
                    let st' = st\<lparr>predict_calls := predict_calls st + 1\<rparr>
                    in (case predict sv tensor of
                          Inl e \<Rightarrow> (Inl e, st')
                        | Inr score \<Rightarrow>
                            (case Math_max (max_arguments sv) score of
                               Inl e \<Rightarrow> (Inl e, st')
                             | Inr highest \<Rightarrow>
                                 let confidenceScore = times highest (Fin 100)
                                 in (Inr (classify confidenceScore), st')))))"

text \<open>The \<open>catch\<close> clause replaces whatever was thrown.\<close>

definition predictClassification ::
  "'t services \<Rightarrow> byte list option \<Rightarrow> state \<Rightarrow> (js_error + classification) \<times> state" where
  "predictClassification sv img st =
     (case predict_try sv img st of
        (Inl error, st') \<Rightarrow>
          (Inl (new_InputError ''Terjadi kesalahan dalam melakukan prediksi''), st')
      | (Inr result, st') \<Rightarrow> (Inr result, st'))"

section \<open>Firestore service\<close>

record history =
  history_result :: string
  history_createdAt :: string
  history_suggestion :: string
  history_id :: string

record history_view =
  view_id :: string
  view_history :: history

definition modelData :: "string \<times> prediction_data \<Rightarrow> history_view" where
  "modelData doc =
     \<lparr>view_id = fst doc,
      view_history =
        \<lparr>history_result = data_result (snd doc),
         history_createdAt = data_createdAt (snd doc),
         history_suggestion = data_suggestion (snd doc),
         history_id = fst doc\<rparr>\<rparr>"

text \<open>
  \<open>storeData\<close> is called with a value of \<open>crypto.randomUUID\<close>, a single path
  segment, which names the document of that key in the collection; a rejection of the
  write, at \<open>doc(id)\<close> or at \<open>set(data)\<close>, is the \<open>fault\<close>.
\<close>

definition storeData ::
  "js_error option \<Rightarrow> string \<Rightarrow> prediction_data \<Rightarrow> state \<Rightarrow> (js_error + unit) \<times> state" where
  "storeData fault k d st =
     (let st' = st\<lparr>set_calls := set_calls st + 1\<rparr>
      in case fault of
           Some e \<Rightarrow> (Inl e, st')
         | None \<Rightarrow> (Inr (), st'\<lparr>predictions := AList.update k d (predictions st')\<rparr>))"

text \<open>What a response carries under \<open>data\<close>.\<close>

datatype payload = Record prediction_data | View history_view | Views "history_view list"

text \<open>
  \<open>getData(id = null)\<close>: the test \<open>if (id)\<close> is on the truthiness of \<open>id\<close>, which
  \<open>undefined\<close>, \<open>null\<close> and the empty string fail. The result is \<open>None\<close> for
  \<open>null\<close>.
\<close>

definition truthy :: "string option \<Rightarrow> bool" where
  "truthy v = (case v of None \<Rightarrow> False | Some s \<Rightarrow> s \<noteq> [])"

text \<open>\<open>haystack.includes(needle)\<close> on strings.\<close>

fun starts_with :: "string \<Rightarrow> string \<Rightarrow> bool" where
  "starts_with s [] = True"
| "starts_with [] (c # cs) = False"
| "starts_with (x # xs) (c # cs) = (x = c \<and> starts_with xs cs)"

fun str_includes :: "string \<Rightarrow> string \<Rightarrow> bool" where
  "str_includes [] needle = (needle = [])"
| "str_includes (x # xs) needle = (starts_with (x # xs) needle \<or> str_includes xs needle)"

text \<open>The splitting of a path at its slashes.\<close>

fun segments :: "string \<Rightarrow> string list" where
  "segments [] = [[]]"
| "segments (c # cs) =
     (if c = CHR ''/'' then [] # segments cs
      else (case segments cs of [] \<Rightarrow> [[c]] | s # ss \<Rightarrow> (c # s) # ss))"

text \<open>
  \<open>predictCollection.doc(documentPath)\<close> of the store's client library: the path must
  be a non-empty string without \<open>//\<close>; its non-empty segments are appended to the path
  of the collection, and the result must name a document, which a path below a
  collection does when it has an odd number of segments. Otherwise the call throws. The
  result is the path of the document below the collection.
\<close>

definition doc :: "string \<Rightarrow> js_error + string list" where
  "doc documentPath =
     (if documentPath = [] then Inl (Fault ''Path must be a non-empty string.'')
      else if str_includes documentPath ''//'' then Inl (Fault ''Paths must not contain //.'')
      else let path = filter (\<lambda>seg. seg \<noteq> []) (segments documentPath)
           in if even (length path)
              then Inl (Fault ''Value for argument documentPath must point to a document.'')
              else Inr path)"

text \<open>
  \<open>doc(id).get()\<close>: the document at a path, if the store has one. The \<open>id\<close> of a
  document is the last segment of its path.
\<close>

definition get_document :: "state \<Rightarrow> string list \<Rightarrow> (string \<times> prediction_data) option" where
  "get_document st path =
     (case path of
        [k] \<Rightarrow> map_option (Pair k) (map_of (predictions st) k)
      | _ \<Rightarrow> map_option (Pair (last path)) (map_of (subdocuments st) path))"

definition getData :: "string option \<Rightarrow> state \<Rightarrow> js_error + payload option" where
  "getData id_arg st =
     (if truthy id_arg
      then (case id_arg of
              None \<Rightarrow> Inr None
            | Some k \<Rightarrow>
                (case doc k of
                   Inl e \<Rightarrow> Inl e
                 | Inr path \<Rightarrow>
                     (case get_document st path of
                        None \<Rightarrow> Inr None
                      | Some found \<Rightarrow> Inr (Some (View (modelData found))))))
      else Inr (Some (Views (map modelData (predictions st)))))"

section \<open>Handlers\<close>

text \<open>A response: the status code set by \<open>response.code\<close> and the keys of the body.\<close>

record response =
  code :: nat
  status :: string
  message :: "string option"
  data :: "payload option"

definition postPredictHandler ::
  "'t services \<Rightarrow> ambient \<Rightarrow> byte list option \<Rightarrow> state \<Rightarrow> (js_error + response) \<times> state" where
  "postPredictHandler sv w img st =
     (case predictClassification sv img st of
        (Inl e, st1) \<Rightarrow> (Inl e, st1)
      | (Inr r, st1) \<Rightarrow>
          let new_id = randomUUID w;
              createdAt = toISOString w;
              d = \<lparr>data_id = new_id, data_result = label r,
                   data_suggestion = suggestion r,
                   data_confidenceScore = confidenceScore r,
                   data_createdAt = createdAt\<rparr>
          in (case storeData (set_fault w) new_id d st1 of
                (Inl e, st2) \<Rightarrow> (Inl e, st2)
              | (Inr _, st2) \<Rightarrow>
                  (Inr \<lparr>code = 201, status = ''success'',
                        message = Some (if gt (confidenceScore r) (Fin 0)
                                        then ''Model is predicted successfully''
                                        else ''Please use the correct picture''),
                        data = Some (Record d)\<rparr>, st2)))"

text \<open>\<open>request.params.id\<close> is \<open>None\<close> when the route binds no such parameter.\<close>

definition getPredictHandler :: "string option \<Rightarrow> state \<Rightarrow> js_error + response" where
  "getPredictHandler params_id st =
     (case getData params_id st of
        Inl e \<Rightarrow> Inl e
      | Inr None \<Rightarrow>
          Inr \<lparr>code = 404, status = ''fail'',
               message = Some ''Prediction not found'', data = None\<rparr>
      | Inr (Some d) \<Rightarrow>
          Inr \<lparr>code = 200, status = ''success'', message = None, data = Some d\<rparr>)"

section \<open>Server\<close>

text \<open>
  What \<open>onPreResponse\<close> reads of an error. The framework wraps an exception thrown
  by a handler as a 500 before the extension runs, so every error there has
  \<open>isBoom\<close> set and an \<open>output.statusCode\<close>.
\<close>

fun output_statusCode :: "js_error \<Rightarrow> nat" where
  "output_statusCode (Boom c m) = c"
| "output_statusCode (InputError m c) = 500"
| "output_statusCode (Fault m) = 500"

fun error_message :: "js_error \<Rightarrow> string" where
  "error_message (Boom c m) = m"
| "error_message (InputError m c) = m"
| "error_message (Fault m) = m"

definition fail_response :: "string \<Rightarrow> nat \<Rightarrow> response" where
  "fail_response msg c = \<lparr>code = c, status = ''fail'', message = Some msg, data = None\<rparr>"

definition onPreResponse :: "js_error + response \<Rightarrow> response" where
  "onPreResponse r =
     (case r of
        Inr resp \<Rightarrow> resp
      | Inl e \<Rightarrow>
          if output_statusCode e = 413
          then fail_response
                 ''Payload content length greater than maximum allowed: 1000000'' 413
          else (case e of
                  InputError msg c \<Rightarrow> fail_response msg c
                | _ \<Rightarrow> fail_response (error_message e) (output_statusCode e)))"

text \<open>The route table of \<open>server.route\<close>.\<close>

datatype handler = PostPredict | GetPredict

record route =
  route_path :: string
  route_method :: string
  route_handler :: handler

definition routes :: "route list" where
  "routes =
     [\<lparr>route_path = ''/predict'', route_method = ''POST'', route_handler = PostPredict\<rparr>,
      \<lparr>route_path = ''/predict/histories'', route_method = ''GET'',
       route_handler = GetPredict\<rparr>]"

text \<open>
  The framework's path matching (on \<open>segments\<close>, the splitting of a path at its
  slashes), for literal segments and whole-segment parameters
  \<open>{name}\<close>: a parameter segment binds its name to the non-empty request segment, a
  literal segment must be equal. \<open>request.params\<close> holds the bindings of the matched
  route and nothing else.
\<close>

definition is_param :: "string \<Rightarrow> bool" where
  "is_param seg = (seg \<noteq> [] \<and> hd seg = CHR ''{'' \<and> last seg = CHR ''}'')"

definition param_name :: "string \<Rightarrow> string" where
  "param_name seg = butlast (tl seg)"

fun match_segments :: "string list \<Rightarrow> string list \<Rightarrow> (string \<times> string) list option" where
  "match_segments [] [] = Some []"
| "match_segments (p # ps) (s # ss) =
     (if is_param p
      then (if s = [] then None
            else map_option ((#) (param_name p, s)) (match_segments ps ss))
      else if p = s then match_segments ps ss else None)"
| "match_segments _ _ = None"

fun find_route :: "string \<Rightarrow> string \<Rightarrow> route list \<Rightarrow> (route \<times> (string \<times> string) list) option" where
  "find_route m p [] = None"
| "find_route m p (r # rs) =
     (if route_method r = m
      then (case match_segments (segments (route_path r)) (segments p) of
              Some params \<Rightarrow> Some (r, params)
            | None \<Rightarrow> find_route m p rs)
      else find_route m p rs)"

record request =
  request_method :: string
  request_path :: string
  payload_image :: "byte list option"

text \<open>
  One request through the route table, its handler and \<open>onPreResponse\<close>. The
  request is taken after the framework has parsed its payload, whose own size limit is
  upstream of the handlers.
\<close>

definition dispatch ::
  "'t services \<Rightarrow> ambient \<Rightarrow> request \<Rightarrow> state \<Rightarrow> response \<times> state" where
  "dispatch sv w req st =
     (case find_route (request_method req) (request_path req) routes of
        None \<Rightarrow> (onPreResponse (Inl (Boom 404 ''Not Found'')), st)
      | Some (r, params) \<Rightarrow>
          (case route_handler r of
             PostPredict \<Rightarrow>
               (case postPredictHandler sv w (payload_image req) st of
                  (res, st') \<Rightarrow> (onPreResponse res, st'))
           | GetPredict \<Rightarrow>
               (onPreResponse (getPredictHandler (map_of params ''id'') st), st)))"

text \<open>The object \<open>data\<close> built at lines 112 to 118, to state what is stored.\<close>

definition new_data :: "ambient \<Rightarrow> classification \<Rightarrow> prediction_data" where
  "new_data w r =
     \<lparr>data_id = randomUUID w, data_result = label r, data_suggestion = suggestion r,
      data_confidenceScore = confidenceScore r, data_createdAt = toISOString w\<rparr>"

text \<open>Fixtures for the concrete runs below.\<close>

definition fixture_services :: "unit services" where
  "fixture_services =
     \<lparr>decodeJpeg = (\<lambda>bytes. Inr ()), predict = (\<lambda>tensor. Inr [Fin 0.005]),
      max_arguments = 125000\<rparr>"

definition fixture_ambient :: ambient where
  "fixture_ambient =
     \<lparr>randomUUID = ''123e4567-e89b-42d3-a456-426614174000'',
      toISOString = ''2024-06-01T10:00:00.000Z'', set_fault = None\<rparr>"

definition empty_state :: state where
  "empty_state = \<lparr>predictions = [], subdocuments = [], predict_calls = 0, set_calls = 0\<rparr>"

text \<open>
  The record and the state that the first submission on the empty store produces with
  these fixtures, and models that answer 0, nothing, a NaN, three values, and an array
  of 130000 values, which is more than the engine of the fixtures passes.
\<close>

definition fixture_data :: prediction_data where
  "fixture_data =
     \<lparr>data_id = ''123e4567-e89b-42d3-a456-426614174000'', data_result = ''Non-cancer'',
      data_suggestion = ''Penyakit kanker tidak terdeteksi.'',
      data_confidenceScore = Fin 0.5, data_createdAt = ''2024-06-01T10:00:00.000Z''\<rparr>"

definition fixture_stored :: state where
  "fixture_stored =
     \<lparr>predictions = [(''123e4567-e89b-42d3-a456-426614174000'', fixture_data)],
      subdocuments = [], predict_calls = 1, set_calls = 1\<rparr>"

definition zero_services :: "unit services" where
  "zero_services =
     \<lparr>decodeJpeg = (\<lambda>bytes. Inr ()), predict = (\<lambda>tensor. Inr [Fin 0]),
      max_arguments = 125000\<rparr>"

definition empty_services :: "unit services" where
  "empty_services =
     \<lparr>decodeJpeg = (\<lambda>bytes. Inr ()), predict = (\<lambda>tensor. Inr []),
      max_arguments = 125000\<rparr>"

definition nan_services :: "unit services" where
  "nan_services =
     \<lparr>decodeJpeg = (\<lambda>bytes. Inr ()), predict = (\<lambda>tensor. Inr [Fin 0.2, NaN]),
      max_arguments = 125000\<rparr>"

definition three_services :: "unit services" where
  "three_services =
     \<lparr>decodeJpeg = (\<lambda>bytes. Inr ()), predict = (\<lambda>tensor. Inr [Fin 0.25, Fin 0.75, Fin 0.5]),
      max_arguments = 125000\<rparr>"

definition large_services :: "unit services" where
  "large_services =
     \<lparr>decodeJpeg = (\<lambda>bytes. Inr ()), predict = (\<lambda>tensor. Inr (replicate 130000 (Fin 0.5))),
      max_arguments = 125000\<rparr>"

section \<open>Facts about the inference service\<close>

lemma predict_try_oversized:
  "length bytes > 1048576 \<Longrightarrow>
   predict_try sv (Some bytes) st =
     (Inl (InputError ''Ukuran gambar terlalu besar. Maksimum 1MB.'' 400), st)"
  by (simp add: predict_try_def new_InputError_def)

lemma predictClassification_oversized:
  "length bytes > 1048576 \<Longrightarrow>
   predictClassification sv (Some bytes) st =
     (Inl (InputError ''Terjadi kesalahan dalam melakukan prediksi'' 400), st)"
  by (simp add: predictClassification_def predict_try_oversized new_InputError_def)

lemma predictClassification_ok:
  assumes "length bytes \<le> 1048576" "decodeJpeg sv bytes = Inr tensor"
    "predict sv tensor = Inr score" "length score \<le> max_arguments sv"
  shows "predictClassification sv (Some bytes) st =
     (Inr (classify (times (max_from NegInf score) (Fin 100))),
      st\<lparr>predict_calls := predict_calls st + 1\<rparr>)"
  using assms
  by (simp add: predictClassification_def predict_try_def Math_max_def Let_def)

lemma predictClassification_too_many:
  assumes "length bytes \<le> 1048576" "decodeJpeg sv bytes = Inr tensor"
    "predict sv tensor = Inr score" "length score > max_arguments sv"
  shows "predictClassification sv (Some bytes) st =
     (Inl (InputError ''Terjadi kesalahan dalam melakukan prediksi'' 400),
      st\<lparr>predict_calls := predict_calls st + 1\<rparr>)"
  using assms
  by (simp add: predictClassification_def predict_try_def Math_max_def Let_def
      new_InputError_def)


lemma max_from_Fin: "max_from (Fin h) (map Fin vs) = Fin (fold max vs h)"
  by (induction vs arbitrary: h) (auto simp: max_def)

lemma max_from_NegInf_Fin:
  assumes "vs \<noteq> []"
  shows "max_from NegInf (map Fin vs) = Fin (Max (set vs))"
proof (cases vs)
  case Nil
  with assms show ?thesis by simp
next
  case (Cons v ws)
  have "Max (set (v # ws)) = fold max ws v"
    by (rule Max.set_eq_fold)
  then show ?thesis
    using Cons by (simp add: max_from_Fin)
qed

lemma lt_trans: "lt a b \<Longrightarrow> lt b c \<Longrightarrow> lt a c"
  by (cases a; cases b; cases c) auto

lemma not_lt_trans:
  "b \<noteq> NaN \<Longrightarrow> \<not> lt a b \<Longrightarrow> \<not> lt b c \<Longrightarrow> \<not> lt a c"
  by (cases a; cases b; cases c) auto

lemma max_from_greatest:
  "h \<noteq> NaN \<Longrightarrow> NaN \<notin> set xs \<Longrightarrow>
   max_from h xs \<in> insert h (set xs)
   \<and> \<not> lt (max_from h xs) h \<and> (\<forall>x \<in> set xs. \<not> lt (max_from h xs) x)"
proof (induction xs arbitrary: h)
  case Nil
  then show ?case by (cases h) auto
next
  case (Cons x xs)
  let ?h = "if lt h x then x else h"
  from Cons.prems have x: "x \<noteq> NaN" and xs: "NaN \<notin> set xs" by auto
  from x Cons.prems(1) have h': "?h \<noteq> NaN" by simp
  note ih = Cons.IH [OF h' xs]
  have step: "max_from h (x # xs) = max_from ?h xs"
    using x by simp
  have not_h: "\<not> lt (max_from ?h xs) h"
  proof (cases "lt h x")
    case True
    with ih show ?thesis by (auto dest: lt_trans)
  next
    case False
    with ih show ?thesis by simp
  qed
  have not_x: "\<not> lt (max_from ?h xs) x"
  proof (cases "lt h x")
    case True
    with ih show ?thesis by simp
  next
    case False
    with ih Cons.prems(1) show ?thesis by (auto dest: not_lt_trans)
  qed
  from ih not_h not_x show ?case
    unfolding step by (auto split: if_splits)
qed

lemma max_from_NegInf_greatest:
  assumes "xs \<noteq> []" and "NaN \<notin> set xs"
  shows "max_from NegInf xs \<in> set xs \<and> (\<forall>x \<in> set xs. \<not> lt (max_from NegInf xs) x)"
proof -
  from max_from_greatest [of NegInf xs] assms(2)
  have m: "max_from NegInf xs \<in> insert NegInf (set xs)"
    and g: "\<forall>x \<in> set xs. \<not> lt (max_from NegInf xs) x"
    by auto
  have "max_from NegInf xs \<in> set xs"
  proof (cases "max_from NegInf xs = NegInf")
    case True
    from assms(1) obtain x where x: "x \<in> set xs" by (cases xs) auto
    with g True have "\<not> lt NegInf x" by simp
    moreover from x assms(2) have "x \<noteq> NaN" by auto
    ultimately have "x = NegInf" by (cases x) auto
    with x True show ?thesis by simp
  next
    case False
    with m show ?thesis by simp
  qed
  with g show ?thesis by simp
qed

lemma max_from_NaN: "NaN \<in> set xs \<Longrightarrow> max_from h xs = NaN"
  by (induction xs arbitrary: h) auto

section \<open>Facts about the handlers\<close>

lemma postPredictHandler_failed:
  "predictClassification sv img st = (Inl e, st1) \<Longrightarrow>
   postPredictHandler sv w img st = (Inl e, st1)"
  by (simp add: postPredictHandler_def)

lemma postPredictHandler_classified:
  "predictClassification sv img st = (Inr r, st1) \<Longrightarrow>
   postPredictHandler sv w img st =
     (case set_fault w of
        Some e \<Rightarrow> (Inl e, st1\<lparr>set_calls := set_calls st1 + 1\<rparr>)
      | None \<Rightarrow>
          (Inr \<lparr>code = 201, status = ''success'',
                message = Some (if gt (confidenceScore r) (Fin 0)
                                then ''Model is predicted successfully''
                                else ''Please use the correct picture''),
                data = Some (Record (new_data w r))\<rparr>,
           st1\<lparr>set_calls := set_calls st1 + 1,
               predictions := AList.update (randomUUID w) (new_data w r) (predictions st1)\<rparr>))"
  by (simp add: postPredictHandler_def storeData_def Let_def new_data_def split: option.splits)

lemma postPredictHandler_success:
  assumes "postPredictHandler sv w img st = (Inr resp, st')"
  shows "\<exists>r st1. predictClassification sv img st = (Inr r, st1) \<and> set_fault w = None
      \<and> resp = \<lparr>code = 201, status = ''success'',
                message = Some (if gt (confidenceScore r) (Fin 0)
                                then ''Model is predicted successfully''
                                else ''Please use the correct picture''),
                data = Some (Record (new_data w r))\<rparr>
      \<and> st' = st1\<lparr>set_calls := set_calls st1 + 1,
               predictions := AList.update (randomUUID w) (new_data w r) (predictions st1)\<rparr>"
proof (cases "predictClassification sv img st")
  case (Pair res st1)
  show ?thesis
  proof (cases res)
    case (Inl e)
    with Pair assms show ?thesis by (simp add: postPredictHandler_failed)
  next
    case (Inr r)
    with Pair assms show ?thesis
      by (auto simp: postPredictHandler_classified split: option.splits)
  qed
qed


lemma segments_no_slash: "CHR ''/'' \<notin> set k \<Longrightarrow> segments k = [k]"
  by (induction k) auto

lemma str_includes_slash: "str_includes k ''//'' \<Longrightarrow> CHR ''/'' \<in> set k"
  by (induction k) auto

lemma doc_single_segment:
  "k \<noteq> [] \<Longrightarrow> CHR ''/'' \<notin> set k \<Longrightarrow> doc k = Inr [k]"
  using str_includes_slash [of k] by (auto simp: doc_def segments_no_slash)

lemma getPredictHandler_found:
  "k \<noteq> [] \<Longrightarrow> CHR ''/'' \<notin> set k \<Longrightarrow> map_of (predictions st) k = Some d \<Longrightarrow>
   getPredictHandler (Some k) st =
     Inr \<lparr>code = 200, status = ''success'', message = None,
          data = Some (View (modelData (k, d)))\<rparr>"
  by (simp add: getPredictHandler_def getData_def truthy_def doc_single_segment
      get_document_def)

lemma getPredictHandler_no_id:
  "getPredictHandler None st =
     Inr \<lparr>code = 200, status = ''success'', message = None,
          data = Some (Views (map modelData (predictions st)))\<rparr>"
  by (simp add: getPredictHandler_def getData_def truthy_def)

lemma onPreResponse_error_data: "data (onPreResponse (Inl e)) = None"
  by (simp add: onPreResponse_def fail_response_def split: js_error.splits)

lemma postPredictHandler_data:
  "data (onPreResponse (fst (postPredictHandler sv w img st))) \<noteq> Some (View v)"
proof (cases "postPredictHandler sv w img st")
  case (Pair res st')
  show ?thesis
  proof (cases res)
    case (Inl e)
    with Pair show ?thesis by (simp add: onPreResponse_error_data)
  next
    case (Inr resp)
    with Pair postPredictHandler_success [of sv w img st resp st'] show ?thesis
      by (auto simp: onPreResponse_def)
  qed
qed

lemma fixture_run:
  "postPredictHandler fixture_services fixture_ambient (Some [0, 1, 2]) empty_state =
     (Inr \<lparr>code = 201, status = ''success'',
           message = Some ''Model is predicted successfully'',
           data = Some (Record fixture_data)\<rparr>, fixture_stored)"
  by (simp add: postPredictHandler_def predictClassification_def predict_try_def
      storeData_def classify_def Math_max_def gt_def Let_def fixture_services_def
      fixture_ambient_def empty_state_def fixture_data_def fixture_stored_def)

section \<open>Facts about the route table\<close>

lemma match_segments_no_param:
  "\<not> list_ex is_param ps \<Longrightarrow> match_segments ps ss = Some bs \<Longrightarrow> bs = []"
  by (induction ps ss arbitrary: bs rule: match_segments.induct)
    (auto split: if_splits)

lemma find_route_no_param:
  "\<forall>r \<in> set rs. \<not> list_ex is_param (segments (route_path r)) \<Longrightarrow>
   find_route m p rs = Some (r, bs) \<Longrightarrow> bs = []"
  by (induction rs) (auto split: if_splits option.splits dest: match_segments_no_param)

lemma routes_no_param:
  "\<forall>r \<in> set routes. \<not> list_ex is_param (segments (route_path r))"
  by (simp add: routes_def is_param_def)

section \<open>Classification policy\<close>

text \<open>
  C1. For every confidence score the policy answers Non-cancer with the non-cancer
  suggestion exactly when the score is below 1, and Cancer with the see-a-doctor
  suggestion for every score of at least 1; the score 1.0 itself is Cancer.
\<close>

theorem classify_threshold:
  "(label (classify cs) = ''Non-cancer'' \<longleftrightarrow> lt cs (Fin 1))
   \<and> (lt cs (Fin 1) \<longrightarrow>
        classify cs = \<lparr>confidenceScore = cs, label = ''Non-cancer'',
                        suggestion = ''Penyakit kanker tidak terdeteksi.''\<rparr>)
   \<and> (ge cs (Fin 1) \<longrightarrow>
        classify cs = \<lparr>confidenceScore = cs, label = ''Cancer'',
                        suggestion = ''Segera periksa ke dokter!''\<rparr>)
   \<and> label (classify (Fin 1)) = ''Cancer''"
  by (cases cs) (auto simp: classify_def ge_def Let_def split: if_splits)

theorem classify_threshold_witness:
  "lt (Fin 0.5) (Fin 1) \<and> label (classify (Fin 0.5)) = ''Non-cancer''
   \<and> ge (Fin 42) (Fin 1) \<and> label (classify (Fin 42)) = ''Cancer''"
  using classify_threshold [of "Fin 0.5"] classify_threshold [of "Fin 42"]
  by (simp add: ge_def classify_def)

section \<open>Oversized images\<close>

text \<open>
  C2. For every image of more than 1,048,576 bytes \<open>predictClassification\<close>, and
  with it \<open>postPredictHandler\<close>, fails with an \<open>InputError\<close> of status code 400,
  and the model is not invoked: the state, with its count of forward passes, is the one
  before the call, whatever the decoder and the model are.
\<close>

theorem oversized_image_rejected:
  assumes "length bytes > 1048576"
  shows "predictClassification sv (Some bytes) st =
           (Inl (InputError ''Terjadi kesalahan dalam melakukan prediksi'' 400), st)
         \<and> postPredictHandler sv w (Some bytes) st =
           (Inl (InputError ''Terjadi kesalahan dalam melakukan prediksi'' 400), st)
         \<and> predict_calls (snd (postPredictHandler sv w (Some bytes) st)) = predict_calls st"
  using assms by (simp add: postPredictHandler_def predictClassification_oversized)

theorem oversized_image_rejected_witness:
  "length (replicate 1048577 (0::byte)) > 1048576
   \<and> fst (postPredictHandler fixture_services fixture_ambient
            (Some (replicate 1048577 0)) empty_state) =
       Inl (InputError ''Terjadi kesalahan dalam melakukan prediksi'' 400)
   \<and> predict_calls (snd (postPredictHandler fixture_services fixture_ambient
            (Some (replicate 1048577 0)) empty_state)) = 0"
  using oversized_image_rejected [of "replicate 1048577 0" fixture_services empty_state fixture_ambient]
  by (simp add: empty_state_def)

text \<open>
  C3. The claim is that the caller of an oversized image is told "maximum 1MB". On a
  buffer of 2 MB of zeros the error thrown at line 84 is caught at line 98 and replaced:
  the response carries the message of line 99, which does not contain
  \<open>Maksimum 1MB\<close>.
\<close>

theorem oversized_image_generic_message:
  "onPreResponse (fst (postPredictHandler fixture_services fixture_ambient
       (Some (replicate 2097152 0)) empty_state)) =
     \<lparr>code = 400, status = ''fail'',
      message = Some ''Terjadi kesalahan dalam melakukan prediksi'', data = None\<rparr>
   \<and> \<not> str_includes ''Terjadi kesalahan dalam melakukan prediksi'' ''Maksimum 1MB''"
  by (simp add: postPredictHandler_def predictClassification_def predict_try_def
      new_InputError_def onPreResponse_def fail_response_def)

section \<open>Stored records\<close>

text \<open>
  C4. Round trip: when \<open>postPredictHandler\<close> succeeds, with the identifier that
  \<open>crypto.randomUUID\<close> gives (a non-empty string without a slash), the record
  \<open>d\<close> of its response is the one stored under its id, and \<open>getPredictHandler\<close> on
  that id answers the view whose \<open>id\<close>, \<open>history.result\<close>,
  \<open>history.createdAt\<close>, \<open>history.suggestion\<close> and \<open>history.id\<close> are the
  fields of \<open>d\<close>.
\<close>

theorem submit_then_get_round_trip:
  assumes "postPredictHandler sv w img st = (Inr resp, st')"
    and "randomUUID w \<noteq> []" and "CHR ''/'' \<notin> set (randomUUID w)"
  shows "\<exists>d. data resp = Some (Record d)
           \<and> map_of (predictions st') (data_id d) = Some d
           \<and> getPredictHandler (Some (data_id d)) st' =
               Inr \<lparr>code = 200, status = ''success'', message = None,
                    data = Some (View
                      \<lparr>view_id = data_id d,
                       view_history =
                         \<lparr>history_result = data_result d,
                          history_createdAt = data_createdAt d,
                          history_suggestion = data_suggestion d,
                          history_id = data_id d\<rparr>\<rparr>)\<rparr>"
proof -
  from postPredictHandler_success [OF assms(1)] obtain r st1 where
    resp: "data resp = Some (Record (new_data w r))" and
    st': "st' = st1\<lparr>set_calls := set_calls st1 + 1,
               predictions := AList.update (randomUUID w) (new_data w r) (predictions st1)\<rparr>"
    by auto
  have key: "data_id (new_data w r) = randomUUID w"
    by (simp add: new_data_def)
  have stored: "map_of (predictions st') (randomUUID w) = Some (new_data w r)"
    by (simp add: st' update_conv')
  from getPredictHandler_found [OF assms(2) assms(3) stored]
  have "getPredictHandler (Some (randomUUID w)) st' =
     Inr \<lparr>code = 200, status = ''success'', message = None,
          data = Some (View (modelData (randomUUID w, new_data w r)))\<rparr>" .
  with resp stored key show ?thesis
    by (simp add: modelData_def)
qed

theorem submit_then_get_round_trip_witness:
  "randomUUID fixture_ambient \<noteq> [] \<and> CHR ''/'' \<notin> set (randomUUID fixture_ambient)
   \<and> fst (postPredictHandler fixture_services fixture_ambient (Some [0, 1, 2]) empty_state) =
       Inr \<lparr>code = 201, status = ''success'',
            message = Some ''Model is predicted successfully'',
            data = Some (Record fixture_data)\<rparr>
   \<and> getPredictHandler (Some ''123e4567-e89b-42d3-a456-426614174000'') fixture_stored =
       Inr \<lparr>code = 200, status = ''success'', message = None,
            data = Some (View
              \<lparr>view_id = ''123e4567-e89b-42d3-a456-426614174000'',
               view_history =
                 \<lparr>history_result = ''Non-cancer'',
                  history_createdAt = ''2024-06-01T10:00:00.000Z'',
                  history_suggestion = ''Penyakit kanker tidak terdeteksi.'',
                  history_id = ''123e4567-e89b-42d3-a456-426614174000''\<rparr>\<rparr>)\<rparr>"
proof -
  have ne: "randomUUID fixture_ambient \<noteq> []"
    by (simp add: fixture_ambient_def)
  have ns: "CHR ''/'' \<notin> set (randomUUID fixture_ambient)"
    by (simp add: fixture_ambient_def)
  from submit_then_get_round_trip [OF fixture_run ne ns] ne ns show ?thesis
    by (simp add: fixture_run fixture_data_def)
qed



text \<open>
  C6. For every classified request whose write the store accepts, the response has
  status code 201, its message is "Model is predicted successfully" when the confidence
  score is greater than 0 and "Please use the correct picture" otherwise, and in both
  cases the record is stored under the new id.
\<close>

theorem response_message_policy:
  assumes "predictClassification sv img st = (Inr r, st1)" and "set_fault w = None"
  shows "\<exists>resp st'. postPredictHandler sv w img st = (Inr resp, st')
           \<and> code resp = 201 \<and> status resp = ''success''
           \<and> (gt (confidenceScore r) (Fin 0) \<longrightarrow>
                 message resp = Some ''Model is predicted successfully'')
           \<and> (\<not> gt (confidenceScore r) (Fin 0) \<longrightarrow>
                 message resp = Some ''Please use the correct picture'')
           \<and> (\<exists>d. data resp = Some (Record d)
                 \<and> data_confidenceScore d = confidenceScore r
                 \<and> data_result d = label r
                 \<and> map_of (predictions st') (randomUUID w) = Some d)"
  using assms
  by (simp add: postPredictHandler_classified update_conv' new_data_def)

theorem response_message_policy_witness:
  "(\<exists>resp st'. postPredictHandler fixture_services fixture_ambient (Some [0, 1, 2])
        empty_state = (Inr resp, st')
      \<and> code resp = 201 \<and> message resp = Some ''Model is predicted successfully'')
   \<and> (\<exists>resp st'. postPredictHandler zero_services fixture_ambient (Some [0, 1, 2])
        empty_state = (Inr resp, st')
      \<and> code resp = 201 \<and> message resp = Some ''Please use the correct picture''
      \<and> (\<exists>d. data resp = Some (Record d) \<and> data_result d = ''Non-cancer''))"
proof -
  have a: "predictClassification fixture_services (Some [0, 1, 2]) empty_state =
      (Inr (classify (Fin 0.5)), empty_state\<lparr>predict_calls := predict_calls empty_state + 1\<rparr>)"
    by (simp add: predictClassification_def predict_try_def Math_max_def Let_def
        fixture_services_def)
  have b: "predictClassification zero_services (Some [0, 1, 2]) empty_state =
      (Inr (classify (Fin 0)), empty_state\<lparr>predict_calls := predict_calls empty_state + 1\<rparr>)"
    by (simp add: predictClassification_def predict_try_def Math_max_def Let_def
        zero_services_def)
  have f: "set_fault fixture_ambient = None"
    by (simp add: fixture_ambient_def)
  from response_message_policy [OF a f]
  have "\<exists>resp st'. postPredictHandler fixture_services fixture_ambient (Some [0, 1, 2])
        empty_state = (Inr resp, st')
      \<and> code resp = 201 \<and> message resp = Some ''Model is predicted successfully''"
    by (auto simp: classify_def gt_def)
  moreover from response_message_policy [OF b f]
  have "\<exists>resp st'. postPredictHandler zero_services fixture_ambient (Some [0, 1, 2])
        empty_state = (Inr resp, st')
      \<and> code resp = 201 \<and> message resp = Some ''Please use the correct picture''
      \<and> (\<exists>d. data resp = Some (Record d) \<and> data_result d = ''Non-cancer'')"
    by (auto simp: classify_def gt_def)
  ultimately show ?thesis by blast
qed

section \<open>Confidence score\<close>

text \<open>
  C7, as stated, fails on an output array longer than the engine passes as arguments:
  with the 130000 values of \<open>large_services\<close> the spread of line 89 raises, the
  \<open>catch\<close> answers the \<open>InputError\<close> of line 99 after one forward pass, and no
  confidence score is computed.
\<close>

theorem large_output_has_no_score:
  "predictClassification large_services (Some [0, 1, 2]) empty_state =
     (Inl (InputError ''Terjadi kesalahan dalam melakukan prediksi'' 400),
      empty_state\<lparr>predict_calls := 1\<rparr>)"
  by (simp add: predictClassification_def predict_try_def Math_max_def Let_def
      new_InputError_def large_services_def empty_state_def)

text \<open>
  C7, amended. When the image is decoded and the model answers an array \<open>score\<close> of
  no more elements than the engine passes as arguments, the inference stage returns a
  result whose confidence score is the greatest element of the array times 100: an
  element \<open>m\<close> that no element exceeds, for a non-empty array without NaN, and the
  real maximum times 100 when all elements are finite. An empty array gives
  \<open>-Infinity\<close> and an array with a NaN gives NaN.
\<close>

theorem confidence_is_max_times_100:
  assumes "length bytes \<le> 1048576" and "decodeJpeg sv bytes = Inr tensor"
    and "predict sv tensor = Inr score" and "length score \<le> max_arguments sv"
  shows "\<exists>r st'. predictClassification sv (Some bytes) st = (Inr r, st')
           \<and> (score \<noteq> [] \<and> NaN \<notin> set score \<longrightarrow>
                 (\<exists>m \<in> set score. (\<forall>x \<in> set score. \<not> lt m x)
                    \<and> confidenceScore r = times m (Fin 100)))
           \<and> (\<forall>vs. vs \<noteq> [] \<and> score = map Fin vs \<longrightarrow>
                 confidenceScore r = Fin (Max (set vs) * 100))
           \<and> (score = [] \<longrightarrow> confidenceScore r = NegInf)
           \<and> (NaN \<in> set score \<longrightarrow> confidenceScore r = NaN)"
proof -
  let ?r = "classify (times (max_from NegInf score) (Fin 100))"
  have cs: "confidenceScore (classify c) = c" for c
    by (simp add: classify_def Let_def)
  have a: "score \<noteq> [] \<and> NaN \<notin> set score \<longrightarrow>
      (\<exists>m \<in> set score. (\<forall>x \<in> set score. \<not> lt m x)
         \<and> confidenceScore ?r = times m (Fin 100))"
    using max_from_NegInf_greatest [of score] cs by auto
  have b: "\<forall>vs. vs \<noteq> [] \<and> score = map Fin vs \<longrightarrow>
      confidenceScore ?r = Fin (Max (set vs) * 100)"
    using cs by (auto simp: max_from_NegInf_Fin)
  have c: "score = [] \<longrightarrow> confidenceScore ?r = NegInf"
    using cs by simp
  have d: "NaN \<in> set score \<longrightarrow> confidenceScore ?r = NaN"
    using cs by (simp add: max_from_NaN)
  from predictClassification_ok [OF assms, of st] a b c d show ?thesis
    by blast
qed

theorem confidence_is_max_times_100_witness:
  "length [0, 1, 2 :: byte] \<le> 1048576 \<and> decodeJpeg three_services [0, 1, 2] = Inr ()
   \<and> predict three_services () = Inr [Fin 0.25, Fin 0.75, Fin 0.5]
   \<and> length [Fin 0.25, Fin 0.75, Fin 0.5] \<le> max_arguments three_services
   \<and> (\<exists>r st'. predictClassification three_services (Some [0, 1, 2]) empty_state = (Inr r, st')
         \<and> confidenceScore r = Fin 75)"
proof -
  have h: "length [0, 1, 2 :: byte] \<le> 1048576" "decodeJpeg three_services [0, 1, 2] = Inr ()"
    "predict three_services () = Inr [Fin 0.25, Fin 0.75, Fin 0.5]"
    "length [Fin 0.25, Fin 0.75, Fin 0.5] \<le> max_arguments three_services"
    by (simp_all add: three_services_def)
  have m: "Fin (Max (set [0.25, 0.75, 0.5 :: real]) * 100) = Fin 75" by simp
  from confidence_is_max_times_100 [OF h, of empty_state] obtain r st' where
    run: "predictClassification three_services (Some [0, 1, 2]) empty_state = (Inr r, st')"
    and fin: "\<forall>vs. vs \<noteq> [] \<and> [Fin 0.25, Fin 0.75, Fin 0.5] = map Fin vs \<longrightarrow>
                 confidenceScore r = Fin (Max (set vs) * 100)"
    by blast
  from fin have "confidenceScore r = Fin (Max (set [0.25, 0.75, 0.5 :: real]) * 100)"
    by (rule allE [of _ "[0.25, 0.75, 0.5]"]) simp
  with m have "confidenceScore r = Fin 75" by simp
  with run h show ?thesis by blast
qed

section \<open>History\<close>




text \<open>
  C9. The only route handled by \<open>getPredictHandler\<close> is \<open>/predict/histories\<close>,
  whose path has no parameter segment. So for every request that the route table gives
  to that handler \<open>request.params.id\<close> is undefined and the answer is the whole
  collection, and no request at all is answered with a single view.
\<close>

theorem history_route_binds_no_id:
  "(\<forall>r \<in> set routes. route_handler r = GetPredict \<longrightarrow>
       route_path r = ''/predict/histories''
       \<and> \<not> list_ex is_param (segments (route_path r)))
   \<and> (\<forall>(req::request) r params.
         find_route (request_method req) (request_path req) routes = Some (r, params)
         \<and> route_handler r = GetPredict \<longrightarrow>
         map_of params ''id'' = None
         \<and> dispatch sv w req st =
             (\<lparr>code = 200, status = ''success'', message = None,
               data = Some (Views (map modelData (predictions st)))\<rparr>, st))
   \<and> (\<forall>(req::request) v. data (fst (dispatch sv w req st)) \<noteq> Some (View v))"
proof (intro conjI ballI allI impI)
  fix r assume "r \<in> set routes" and "route_handler r = GetPredict"
  then show "route_path r = ''/predict/histories''" by (auto simp: routes_def)
  from \<open>r \<in> set routes\<close> show "\<not> list_ex is_param (segments (route_path r))"
    using routes_no_param by blast
next
  fix req :: request and r params
  assume h: "find_route (request_method req) (request_path req) routes = Some (r, params)
         \<and> route_handler r = GetPredict"
  then have empty: "params = []"
    using find_route_no_param [OF routes_no_param] by blast
  then show "map_of params ''id'' = None" by simp
  from h empty show "dispatch sv w req st =
             (\<lparr>code = 200, status = ''success'', message = None,
               data = Some (Views (map modelData (predictions st)))\<rparr>, st)"
    by (simp add: dispatch_def getPredictHandler_no_id onPreResponse_def)
next
  fix req :: request and v
  show "data (fst (dispatch sv w req st)) \<noteq> Some (View v)"
  proof (cases "find_route (request_method req) (request_path req) routes")
    case None
    then show ?thesis by (simp add: dispatch_def onPreResponse_error_data)
  next
    case (Some found)
    obtain r params where found: "found = (r, params)" by (cases found)
    with Some have empty: "params = []"
      using find_route_no_param [OF routes_no_param] by blast
    show ?thesis
    proof (cases "route_handler r")
      case PostPredict
      with Some found postPredictHandler_data [of sv w "payload_image req" st v]
      show ?thesis by (auto simp: dispatch_def split: prod.splits)
    next
      case GetPredict
      with Some found empty show ?thesis
        by (simp add: dispatch_def getPredictHandler_no_id onPreResponse_def)
    qed
  qed
qed

theorem history_route_binds_no_id_witness:
  "find_route ''GET'' ''/predict/histories'' routes =
     Some (\<lparr>route_path = ''/predict/histories'', route_method = ''GET'',
            route_handler = GetPredict\<rparr>, [])
   \<and> dispatch fixture_services fixture_ambient
        \<lparr>request_method = ''GET'', request_path = ''/predict/histories'',
         payload_image = None\<rparr> fixture_stored =
       (\<lparr>code = 200, status = ''success'', message = None,
         data = Some (Views [modelData (''123e4567-e89b-42d3-a456-426614174000'',
                                        fixture_data)])\<rparr>, fixture_stored)"
proof -
  have found: "find_route ''GET'' ''/predict/histories'' routes =
     Some (\<lparr>route_path = ''/predict/histories'', route_method = ''GET'',
            route_handler = GetPredict\<rparr>, [])"
    by (simp add: routes_def is_param_def)
  have "find_route (request_method \<lparr>request_method = ''GET'',
            request_path = ''/predict/histories'', payload_image = None\<rparr>)
          (request_path \<lparr>request_method = ''GET'',
            request_path = ''/predict/histories'', payload_image = None\<rparr>) routes =
        Some (\<lparr>route_path = ''/predict/histories'', route_method = ''GET'',
            route_handler = GetPredict\<rparr>, [])
      \<and> route_handler \<lparr>route_path = ''/predict/histories'', route_method = ''GET'',
            route_handler = GetPredict\<rparr> = GetPredict"
    using found by simp
  with history_route_binds_no_id [of fixture_services fixture_ambient fixture_stored]
  have "dispatch fixture_services fixture_ambient
        \<lparr>request_method = ''GET'', request_path = ''/predict/histories'',
         payload_image = None\<rparr> fixture_stored =
       (\<lparr>code = 200, status = ''success'', message = None,
         data = Some (Views (map modelData (predictions fixture_stored)))\<rparr>, fixture_stored)"
    by blast
  with found show ?thesis by (simp add: fixture_stored_def)
qed

section \<open>Totality of the classification\<close>

text \<open>
  C10. The label depends on the comparison \<open>confidenceScore < 1\<close> alone: NaN is
  Cancer; every finite value below 1, 0 among them, and \<open>-Infinity\<close> are Non-cancer.
  \<open>Math.max\<close> of an empty array is \<open>-Infinity\<close>, and so is its product with 100;
  an array holding a NaN gives NaN. Once \<open>Math.max\<close> has returned a number, whatever
  it is, the \<open>try\<close> block returns the classification of its product with 100 and
  raises nothing.
\<close>

theorem classification_total:
  "label (classify cs) = (if lt cs (Fin 1) then ''Non-cancer'' else ''Cancer'')
   \<and> label (classify NaN) = ''Cancer''
   \<and> (\<forall>v. v < 1 \<longrightarrow> label (classify (Fin v)) = ''Non-cancer'')
   \<and> label (classify (Fin 0)) = ''Non-cancer''
   \<and> label (classify NegInf) = ''Non-cancer''
   \<and> Math_max (max_arguments sv) [] = Inr NegInf
   \<and> times NegInf (Fin 100) = NegInf
   \<and> (\<forall>score. NaN \<in> set score \<and> length score \<le> max_arguments sv \<longrightarrow>
         Math_max (max_arguments sv) score = Inr NaN)
   \<and> times NaN (Fin 100) = NaN
   \<and> (\<forall>bytes tensor score highest.
         length bytes \<le> 1048576 \<and> decodeJpeg sv bytes = Inr tensor
         \<and> predict sv tensor = Inr score
         \<and> Math_max (max_arguments sv) score = Inr highest \<longrightarrow>
         predict_try sv (Some bytes) st =
           (Inr (classify (times highest (Fin 100))),
            st\<lparr>predict_calls := predict_calls st + 1\<rparr>))"
proof -
  have branch: "label (classify cs) = (if lt cs (Fin 1) then ''Non-cancer'' else ''Cancer'')
      \<and> label (classify NaN) = ''Cancer''
      \<and> (\<forall>v. v < 1 \<longrightarrow> label (classify (Fin v)) = ''Non-cancer'')
      \<and> label (classify (Fin 0)) = ''Non-cancer''
      \<and> label (classify NegInf) = ''Non-cancer''"
    by (simp add: classify_def)
  have highest: "Math_max (max_arguments sv) [] = Inr NegInf
      \<and> times NegInf (Fin 100) = NegInf
      \<and> (\<forall>score. NaN \<in> set score \<and> length score \<le> max_arguments sv \<longrightarrow>
            Math_max (max_arguments sv) score = Inr NaN)
      \<and> times NaN (Fin 100) = NaN"
    by (simp add: Math_max_def max_from_NaN)
  have returns: "\<forall>bytes tensor score highest.
         length bytes \<le> 1048576 \<and> decodeJpeg sv bytes = Inr tensor
         \<and> predict sv tensor = Inr score
         \<and> Math_max (max_arguments sv) score = Inr highest \<longrightarrow>
         predict_try sv (Some bytes) st =
           (Inr (classify (times highest (Fin 100))),
            st\<lparr>predict_calls := predict_calls st + 1\<rparr>)"
    by (simp add: predict_try_def Let_def)
  from branch highest returns show ?thesis
    by blast
qed

theorem classification_total_witness:
  "(\<exists>r. fst (predict_try empty_services (Some [0, 1, 2]) empty_state) = Inr r
       \<and> confidenceScore r = NegInf \<and> label r = ''Non-cancer'')
   \<and> (\<exists>r. fst (predict_try nan_services (Some [0, 1, 2]) empty_state) = Inr r
       \<and> confidenceScore r = NaN \<and> label r = ''Cancer'')
   \<and> (-3::real) < 1 \<and> label (classify (Fin (-3))) = ''Non-cancer''"
proof -
  have a: "length [0, 1, 2 :: byte] \<le> 1048576 \<and> decodeJpeg empty_services [0, 1, 2] = Inr ()
      \<and> predict empty_services () = Inr []
      \<and> Math_max (max_arguments empty_services) [] = Inr NegInf"
    by (simp add: empty_services_def Math_max_def)
  have b: "length [0, 1, 2 :: byte] \<le> 1048576 \<and> decodeJpeg nan_services [0, 1, 2] = Inr ()
      \<and> predict nan_services () = Inr [Fin 0.2, NaN]
      \<and> Math_max (max_arguments nan_services) [Fin 0.2, NaN] = Inr NaN"
    by (simp add: nan_services_def Math_max_def)
  from classification_total [of NegInf empty_services empty_state] a
  have "fst (predict_try empty_services (Some [0, 1, 2]) empty_state) =
      Inr (classify NegInf) \<and> label (classify NegInf) = ''Non-cancer''"
    by (metis (no_types, lifting) fst_conv)
  moreover
  from classification_total [of NaN nan_services empty_state] b
  have "fst (predict_try nan_services (Some [0, 1, 2]) empty_state) =
      Inr (classify NaN) \<and> label (classify NaN) = ''Cancer''"
    by (metis (no_types, lifting) fst_conv)
  moreover
  from classification_total [of "Fin (-3)" empty_services empty_state]
  have "label (classify (Fin (-3))) = ''Non-cancer''"
    by simp
  moreover have "confidenceScore (classify NegInf) = NegInf" "confidenceScore (classify NaN) = NaN"
    by (simp_all add: classify_def)
  ultimately show ?thesis by simp
qed

end
